theory Spec2Isabelle
  imports Complex_Main
begin

section \<open>The particle field of ParticleGrid.jsx\<close>

text \<open>
  The component keeps a mutable array of particles, a canvas with integer backing
  dimensions and the handle of the animation frame it has requested. JavaScript numbers
  are modelled as real numbers; the canvas dimensions (unsigned integers in the DOM) as
  natural numbers. \<open>Math.random\<close> is a stream of draws: the \<open>k\<close>-th call returns
  \<open>rnd k\<close>, and the state counts the calls made so far.
\<close>

subsection \<open>Data\<close>

datatype kind = Cyan | Acid

record particle =
  p_x :: real
  p_y :: real
  p_r :: real
  p_vx :: real
  p_vy :: real
  p_life :: real
  p_type :: kind

text \<open>The calls made on the 2D context, in order. A colour is its three channels and its alpha.\<close>

datatype rgba = Rgba nat nat nat real

datatype cmd =
    ClearRect real real real real
  | BeginPath
  | Arc real real real real real
  | FillStyle rgba
  | Fill
  | MoveTo real real
  | LineTo real real
  | StrokeStyle rgba
  | LineWidth real
  | Stroke

record state =
  canvas_width :: nat
  canvas_height :: nat
  innerWidth :: nat
  innerHeight :: nat
  particles :: "particle list"
  animId :: "nat option"
  rand_calls :: nat
  ctx :: "cmd list"
  frame_requests :: "nat list"
  next_handle :: nat
  resize_listener :: bool

subsection \<open>init\<close>

text \<open>
  One iteration of the loop body of \<open>init\<close>: seven calls of \<open>Math.random\<close>, in the order of
  the fields of the object literal.
\<close>

definition new_particle :: "(nat \<Rightarrow> real) \<Rightarrow> nat \<Rightarrow> nat \<Rightarrow> nat \<Rightarrow> particle" where
  "new_particle rnd k w h =
     \<lparr> p_x = rnd k * real w,
       p_y = rnd (k + 1) * real h,
       p_r = rnd (k + 2) * 1.4 + 0.2,
       p_vx = (rnd (k + 3) - 0.5) * 0.2,
       p_vy = (rnd (k + 4) - 0.5) * 0.2,
       p_life = rnd (k + 5) * pi * 2,
       p_type = (if rnd (k + 6) > 0.4 then Cyan else Acid) \<rparr>"

text \<open>\<open>for (let i = 0; i < count; i++) particles.push({...})\<close>\<close>

function init_loop :: "(nat \<Rightarrow> real) \<Rightarrow> int \<Rightarrow> nat \<Rightarrow> state \<Rightarrow> state" where
  "init_loop rnd count i s =
     (if int i < count
      then init_loop rnd count (i + 1)
             (s\<lparr> particles := particles s @
                    [new_particle rnd (rand_calls s) (canvas_width s) (canvas_height s)],
                 rand_calls := rand_calls s + 7 \<rparr>)
      else s)"
  by pat_completeness auto
termination
  by (relation "measure (\<lambda>(rnd, count, i, s). nat (count - int i))") auto

definition init :: "(nat \<Rightarrow> real) \<Rightarrow> state \<Rightarrow> state" where
  "init rnd s =
     (let s1 = s\<lparr> particles := [] \<rparr>;
          count = \<lfloor>(real (canvas_width s1) * real (canvas_height s1)) / 16000\<rfloor>
      in init_loop rnd count 0 s1)"

definition resize :: "(nat \<Rightarrow> real) \<Rightarrow> state \<Rightarrow> state" where
  "resize rnd s =
     init rnd (s\<lparr> canvas_width := innerWidth s, canvas_height := innerHeight s \<rparr>)"

subsection \<open>draw\<close>

text \<open>
  The body of the \<open>forEach\<close> callback up to the wrap-around: the four assignments and the
  four conditionals, one after the other, each reading what the previous ones wrote.
\<close>

definition advance :: "nat \<Rightarrow> nat \<Rightarrow> particle \<Rightarrow> particle" where
  "advance w h p =
     (let p1 = p\<lparr> p_life := p_life p + 0.004 \<rparr>;
          p2 = p1\<lparr> p_x := p_x p1 + p_vx p1 \<rparr>;
          p3 = p2\<lparr> p_y := p_y p2 + p_vy p2 \<rparr>;
          p4 = (if p_x p3 < 0 then p3\<lparr> p_x := real w \<rparr> else p3);
          p5 = (if p_x p4 > real w then p4\<lparr> p_x := 0 \<rparr> else p4);
          p6 = (if p_y p5 < 0 then p5\<lparr> p_y := real h \<rparr> else p5);
          p7 = (if p_y p6 > real h then p6\<lparr> p_y := 0 \<rparr> else p6)
      in p7)"

text \<open>The rest of the callback: the circle of the particle, filled with its colour.\<close>

definition paint :: "particle \<Rightarrow> cmd list" where
  "paint p =
     (let alpha = (sin (p_life p) * 0.4 + 0.5) * 0.6
      in [ BeginPath,
           Arc (p_x p) (p_y p) (p_r p) 0 (pi * 2),
           FillStyle (if p_type p = Cyan
                      then Rgba 0 212 255 alpha
                      else Rgba 57 255 20 (alpha * 0.7)),
           Fill ])"

text \<open>\<open>particles.forEach\<close>: the particles are updated in place and painted in array order.\<close>

fun forEach_particles :: "nat \<Rightarrow> nat \<Rightarrow> particle list \<Rightarrow> cmd list \<Rightarrow> particle list \<times> cmd list" where
  "forEach_particles w h [] c = ([], c)"
| "forEach_particles w h (p # ps) c =
     (let p' = advance w h p;
          (ps', c') = forEach_particles w h ps (c @ paint p')
      in (p' # ps', c'))"

definition hypot :: "real \<Rightarrow> real \<Rightarrow> real" where
  "hypot dx dy = sqrt (dx * dx + dy * dy)"

definition pair_dist :: "particle list \<Rightarrow> nat \<Rightarrow> nat \<Rightarrow> real" where
  "pair_dist ps i j =
     (let dx = p_x (ps ! i) - p_x (ps ! j);
          dy = p_y (ps ! i) - p_y (ps ! j)
      in hypot dx dy)"

text \<open>The block guarded by \<open>dist < 90\<close>: one stroked line.\<close>

definition stroke_link :: "particle list \<Rightarrow> nat \<Rightarrow> nat \<Rightarrow> real \<Rightarrow> cmd list" where
  "stroke_link ps i j dst =
     [ BeginPath,
       MoveTo (p_x (ps ! i)) (p_y (ps ! i)),
       LineTo (p_x (ps ! j)) (p_y (ps ! j)),
       StrokeStyle (Rgba 0 212 255 (0.07 * (1 - dst / 90))),
       LineWidth 0.5,
       Stroke ]"

text \<open>
  The two nested loops over the connection lines. Both indices stay below the length of
  the array wherever the array is read.
\<close>

function links_inner :: "particle list \<Rightarrow> nat \<Rightarrow> nat \<Rightarrow> cmd list \<Rightarrow> cmd list" where
  "links_inner ps i j c =
     (if j < length ps
      then links_inner ps i (j + 1)
             (let dst = pair_dist ps i j
              in if dst < 90 then c @ stroke_link ps i j dst else c)
      else c)"
  by pat_completeness auto
termination
  by (relation "measure (\<lambda>(ps, i, j, c). length ps - j)") auto

function links_outer :: "particle list \<Rightarrow> nat \<Rightarrow> cmd list \<Rightarrow> cmd list" where
  "links_outer ps i c =
     (if i < length ps
      then links_outer ps (i + 1) (links_inner ps i (i + 1) c)
      else c)"
  by pat_completeness auto
termination
  by (relation "measure (\<lambda>(ps, i, c). length ps - i)") auto

subsection \<open>The host: animation frames and the resize signal\<close>

text \<open>
  \<open>requestAnimationFrame\<close> hands out a fresh handle and queues the callback for the next
  frame; \<open>cancelAnimationFrame\<close> removes the request with the given handle, if there is
  one, and does nothing for \<open>undefined\<close>. The only callback this component ever queues is
  \<open>draw\<close>, so a queued request is represented by its handle.
\<close>

definition requestAnimationFrame :: "state \<Rightarrow> nat \<times> state" where
  "requestAnimationFrame s =
     (next_handle s,
      s\<lparr> frame_requests := frame_requests s @ [next_handle s],
         next_handle := next_handle s + 1 \<rparr>)"

definition cancelAnimationFrame :: "nat option \<Rightarrow> state \<Rightarrow> state" where
  "cancelAnimationFrame handle s =
     (case handle of
        None \<Rightarrow> s
      | Some k \<Rightarrow> s\<lparr> frame_requests := filter (\<lambda>r. r \<noteq> k) (frame_requests s) \<rparr>)"

definition draw :: "state \<Rightarrow> state" where
  "draw s =
     (let w = canvas_width s;
          h = canvas_height s;
          c0 = ctx s @ [ClearRect 0 0 (real w) (real h)];
          (ps, c1) = forEach_particles w h (particles s) c0;
          c2 = links_outer ps 0 c1;
          (k, s1) = requestAnimationFrame (s\<lparr> particles := ps, ctx := c2 \<rparr>)
      in s1\<lparr> animId := Some k \<rparr>)"

text \<open>The effect run on mount, and the cleanup it returns.\<close>

definition mount :: "(nat \<Rightarrow> real) \<Rightarrow> state \<Rightarrow> state" where
  "mount rnd s =
     (let s0 = s\<lparr> animId := None, particles := [] \<rparr>;
          s1 = resize rnd s0;
          s2 = draw s1
      in s2\<lparr> resize_listener := True \<rparr>)"

definition cleanup :: "state \<Rightarrow> state" where
  "cleanup s = (cancelAnimationFrame (animId s) s)\<lparr> resize_listener := False \<rparr>"

text \<open>
  What the host does to a mounted component: it delivers an animation frame, running the
  requests queued before the frame (requests made during the frame wait for the next
  one), or it changes the size of the window and notifies the listener, if one is
  registered.
\<close>

datatype event = Frame | WindowResize nat nat

fun run_requests :: "nat list \<Rightarrow> state \<Rightarrow> state" where
  "run_requests [] s = s"
| "run_requests (k # ks) s = run_requests ks (draw s)"

fun deliver :: "(nat \<Rightarrow> real) \<Rightarrow> state \<Rightarrow> event \<Rightarrow> state" where
  "deliver rnd s Frame = run_requests (frame_requests s) (s\<lparr> frame_requests := [] \<rparr>)"
| "deliver rnd s (WindowResize w h) =
     (let s1 = s\<lparr> innerWidth := w, innerHeight := h \<rparr>
      in if resize_listener s1 then resize rnd s1 else s1)"

definition run :: "(nat \<Rightarrow> real) \<Rightarrow> state \<Rightarrow> event list \<Rightarrow> state" where
  "run rnd s es = foldl (deliver rnd) s es"

subsection \<open>The vocabulary of the specification\<close>

definition clamp :: "real \<Rightarrow> real \<Rightarrow> real \<Rightarrow> real" where
  "clamp v lo hi = max lo (min hi v)"

definition baseOpacity :: "kind \<Rightarrow> real" where
  "baseOpacity k = (case k of Cyan \<Rightarrow> 0.6 | Acid \<Rightarrow> 0.42)"

definition linkAlpha :: "real \<Rightarrow> real" where
  "linkAlpha d = 0.07 * (1 - d / 90)"

text \<open>
  The index pairs \<open>(i, j)\<close> with \<open>i0 \<le> i < j < n\<close>, in the order the nested loops visit
  them, and the pairs among them that are closer than 90.
\<close>

definition pairs_from :: "nat \<Rightarrow> nat \<Rightarrow> (nat \<times> nat) list" where
  "pairs_from i0 n = concat (map (\<lambda>i. map (Pair i) [i + 1 ..< n]) [i0 ..< n])"

definition pairs :: "nat \<Rightarrow> (nat \<times> nat) list" where
  "pairs n = pairs_from 0 n"

definition connections :: "particle list \<Rightarrow> (nat \<times> nat) list" where
  "connections ps = filter (\<lambda>(i, j). pair_dist ps i j < 90) (pairs (length ps))"

text \<open>Wrap-around of one coordinate against its bound, as one expression.\<close>

definition wrap :: "real \<Rightarrow> real \<Rightarrow> real" where
  "wrap bound v = (if v < 0 then bound else if v > bound then 0 else v)"

text \<open>A page that has just been loaded into a window of the given size: the canvas has
  its default dimensions, nothing is drawn and nothing is scheduled.\<close>

definition page :: "nat \<Rightarrow> nat \<Rightarrow> state" where
  "page w h =
     \<lparr> canvas_width = 300, canvas_height = 150, innerWidth = w, innerHeight = h,
       particles = [], animId = None, rand_calls = 0, ctx = [], frame_requests = [],
       next_handle = 1, resize_listener = False \<rparr>"

definition fill_alphas :: "cmd list \<Rightarrow> real list" where
  "fill_alphas c = concat (map (\<lambda>x. case x of FillStyle (Rgba _ _ _ a) \<Rightarrow> [a] | _ \<Rightarrow> []) c)"

text \<open>The pool of a 200 by 200 window when every random draw is 0: two particles at the
  origin, moving up and to the left.\<close>

definition two_particles :: state where
  "two_particles = resize (\<lambda>k. 0) (page 200 200)"

text \<open>A position within the closed rectangle of the canvas.\<close>

definition in_closed_bounds :: "nat \<Rightarrow> nat \<Rightarrow> particle \<Rightarrow> bool" where
  "in_closed_bounds w h p = (0 \<le> p_x p \<and> p_x p \<le> real w \<and> 0 \<le> p_y p \<and> p_y p \<le> real h)"

text \<open>The component has exactly one frame request queued, and \<open>animId\<close> is its handle.\<close>

definition one_request :: "state \<Rightarrow> bool" where
  "one_request s = (case animId s of None \<Rightarrow> False | Some k \<Rightarrow> frame_requests s = [k])"

text \<open>Nothing is queued and nobody listens: the component has been stopped.\<close>

definition idle :: "state \<Rightarrow> bool" where
  "idle s = (frame_requests s = [] \<and> \<not> resize_listener s)"

text \<open>The same window when only the seventh draw, the kind of the first particle, is one
  half and all others are 0: a cyan and an acid particle at the origin.\<close>

definition mixed_pool :: state where
  "mixed_pool = resize (\<lambda>k. if k = 6 then 1 / 2 else 0) (page 200 200)"

declare init_loop.simps [simp del]
declare links_inner.simps [simp del]
declare links_outer.simps [simp del]

section \<open>The loops in closed form\<close>

lemma upt_shift: "[0 ..< Suc n] = 0 # map Suc [0 ..< n]"
  by (simp add: upt_conv_Cons map_Suc_upt del: upt_Suc)

lemma init_loop_eq:
  "init_loop rnd count i s =
     s\<lparr> particles := particles s @
            map (\<lambda>k. new_particle rnd (rand_calls s + 7 * k) (canvas_width s) (canvas_height s))
              [0 ..< nat (count - int i)],
        rand_calls := rand_calls s + 7 * nat (count - int i) \<rparr>"
proof (induction rnd count i s rule: init_loop.induct)
  case (1 rnd count i s)
  show ?case
  proof (cases "int i < count")
    case True
    then have n: "nat (count - int i) = Suc (nat (count - int (i + 1)))"
      by simp
    show ?thesis
      apply (subst init_loop.simps)
      apply (simp only: True if_True "1.IH" [OF True] n upt_shift)
      apply (simp add: comp_def algebra_simps)
      done
  next
    case False
    then show ?thesis
      by (subst init_loop.simps) simp
  qed
qed

lemma floor_div_16000:
  "\<lfloor>(real w * real h) / 16000\<rfloor> = int ((w * h) div 16000)"
proof -
  have "(real w * real h) / 16000 = real (w * h) / real 16000"
    by simp
  then show ?thesis
    by (simp only: floor_divide_of_nat_eq)
qed

lemma init_eq:
  "init rnd s =
     s\<lparr> particles :=
            map (\<lambda>k. new_particle rnd (rand_calls s + 7 * k) (canvas_width s) (canvas_height s))
              [0 ..< (canvas_width s * canvas_height s) div 16000],
        rand_calls := rand_calls s + 7 * ((canvas_width s * canvas_height s) div 16000) \<rparr>"
  by (simp add: init_def Let_def init_loop_eq floor_div_16000)

lemma forEach_particles_eq:
  "forEach_particles w h ps c =
     (map (advance w h) ps, c @ concat (map (\<lambda>p. paint (advance w h p)) ps))"
  by (induction ps arbitrary: c) (simp_all add: Let_def)

lemma links_inner_eq:
  "links_inner ps i j c =
     c @ concat (map (\<lambda>j. stroke_link ps i j (pair_dist ps i j))
                  (filter (\<lambda>j. pair_dist ps i j < 90) [j ..< length ps]))"
proof (induction ps i j c rule: links_inner.induct)
  case (1 ps i j c)
  show ?case
  proof (cases "j < length ps")
    case True
    then show ?thesis
      using "1.IH" by (subst links_inner.simps) (simp add: Let_def upt_conv_Cons)
  next
    case False
    then show ?thesis
      by (subst links_inner.simps) simp
  qed
qed

lemma links_outer_eq:
  "links_outer ps i c =
     c @ concat (map (\<lambda>(i, j). stroke_link ps i j (pair_dist ps i j))
                  (filter (\<lambda>(i, j). pair_dist ps i j < 90) (pairs_from i (length ps))))"
proof (induction ps i c rule: links_outer.induct)
  case (1 ps i c)
  show ?case
  proof (cases "i < length ps")
    case True
    have "pairs_from i (length ps) =
            map (Pair i) [i + 1 ..< length ps] @ pairs_from (i + 1) (length ps)"
      using True by (simp add: pairs_from_def upt_conv_Cons)
    then show ?thesis
      using True "1.IH"
      by (subst links_outer.simps) (simp add: links_inner_eq filter_map comp_def map_concat)
  next
    case False
    then show ?thesis
      by (subst links_outer.simps) (simp add: pairs_from_def)
  qed
qed

lemma advance_eq:
  "advance w h p =
     p\<lparr> p_life := p_life p + 0.004,
        p_x := wrap (real w) (p_x p + p_vx p),
        p_y := wrap (real h) (p_y p + p_vy p) \<rparr>"
  by (simp add: advance_def wrap_def Let_def)

lemma draw_eq:
  "draw s =
     s\<lparr> particles := map (advance (canvas_width s) (canvas_height s)) (particles s),
        ctx := ctx s @ [ClearRect 0 0 (real (canvas_width s)) (real (canvas_height s))]
               @ concat (map paint (map (advance (canvas_width s) (canvas_height s)) (particles s)))
               @ concat (map (\<lambda>(i, j). stroke_link (map (advance (canvas_width s) (canvas_height s)) (particles s)) i j
                                        (pair_dist (map (advance (canvas_width s) (canvas_height s)) (particles s)) i j))
                          (connections (map (advance (canvas_width s) (canvas_height s)) (particles s)))),
        frame_requests := frame_requests s @ [next_handle s],
        next_handle := next_handle s + 1,
        animId := Some (next_handle s) \<rparr>"
  by (simp add: draw_def Let_def forEach_particles_eq links_outer_eq requestAnimationFrame_def
      connections_def pairs_def comp_def)

lemma resize_eq:
  "resize rnd s =
     s\<lparr> canvas_width := innerWidth s, canvas_height := innerHeight s,
        particles :=
            map (\<lambda>k. new_particle rnd (rand_calls s + 7 * k) (innerWidth s) (innerHeight s))
              [0 ..< (innerWidth s * innerHeight s) div 16000],
        rand_calls := rand_calls s + 7 * ((innerWidth s * innerHeight s) div 16000) \<rparr>"
  by (simp add: resize_def init_eq)

lemma draw_particles:
  "particles (draw s) = map (advance (canvas_width s) (canvas_height s)) (particles s)"
  by (simp add: draw_eq)

lemma draw_canvas:
  "canvas_width (draw s) = canvas_width s" "canvas_height (draw s) = canvas_height s"
  by (simp_all add: draw_eq)

lemma frames_canvas:
  "canvas_width ((draw ^^ n) s) = canvas_width s \<and> canvas_height ((draw ^^ n) s) = canvas_height s"
  by (induction n) (simp_all add: draw_canvas)

lemma frames_particles:
  "particles ((draw ^^ n) s) = map (advance (canvas_width s) (canvas_height s) ^^ n) (particles s)"
  by (induction n) (simp_all add: draw_particles frames_canvas)

lemma two_particles_eq:
  "two_particles =
     \<lparr> canvas_width = 200, canvas_height = 200, innerWidth = 200, innerHeight = 200,
       particles = [\<lparr> p_x = 0, p_y = 0, p_r = 0.2, p_vx = - 0.1, p_vy = - 0.1, p_life = 0, p_type = Acid \<rparr>,
                    \<lparr> p_x = 0, p_y = 0, p_r = 0.2, p_vx = - 0.1, p_vy = - 0.1, p_life = 0, p_type = Acid \<rparr>],
       animId = None, rand_calls = 14, ctx = [], frame_requests = [],
       next_handle = 1, resize_listener = False \<rparr>"
  by (simp add: two_particles_def resize_eq page_def new_particle_def upt_rec)

lemma wrap_closed: "0 \<le> wrap (real n) v \<and> wrap (real n) v \<le> real n"
  by (simp add: wrap_def)

lemma advance_closed: "in_closed_bounds w h (advance w h p)"
  by (simp add: in_closed_bounds_def advance_eq wrap_closed)

lemma advance_iter_closed:
  "in_closed_bounds w h p \<Longrightarrow> in_closed_bounds w h ((advance w h ^^ n) p)"
  by (cases n) (simp_all add: advance_closed)

lemma set_pairs_from: "set (pairs_from i0 n) = {(i, j). i0 \<le> i \<and> i < j \<and> j < n}"
  by (fastforce simp: pairs_from_def)

lemma distinct_pairs_from: "distinct (pairs_from i0 n)"
  unfolding pairs_from_def
proof (rule distinct_concat)
  have "x = y"
    if "map (Pair x) [x + 1 ..< n] = map (Pair y) [y + 1 ..< n]" and "x < n" and "y < n"
    for x y :: nat
  proof -
    from that(1) have "length (map (Pair x) [x + 1 ..< n]) = length (map (Pair y) [y + 1 ..< n])"
      by (rule arg_cong)
    with that(2,3) show ?thesis
      by simp
  qed
  then show "distinct (map (\<lambda>i. map (Pair i) [i + 1 ..< n]) [i0 ..< n])"
    by (simp add: distinct_map inj_on_def)
next
  fix ys assume "ys \<in> set (map (\<lambda>i. map (Pair i) [i + 1 ..< n]) [i0 ..< n])"
  then show "distinct ys"
    by (auto simp: distinct_map inj_on_def)
next
  fix ys zs
  assume "ys \<in> set (map (\<lambda>i. map (Pair i) [i + 1 ..< n]) [i0 ..< n])"
    and "zs \<in> set (map (\<lambda>i. map (Pair i) [i + 1 ..< n]) [i0 ..< n])"
    and "ys \<noteq> zs"
  then show "set ys \<inter> set zs = {}"
    by auto
qed

lemma clamp_sin: "clamp (sin t * 0.4 + 0.5) 0 1 = sin t * 0.4 + 0.5"
proof -
  have "- 1 \<le> sin t" and "sin t \<le> 1"
    by simp_all
  then have "0 \<le> sin t * 0.4 + 0.5" and "sin t * 0.4 + 0.5 \<le> 1"
    by linarith+
  then show ?thesis
    by (simp add: clamp_def)
qed

lemma fill_alphas_append: "fill_alphas (a @ b) = fill_alphas a @ fill_alphas b"
  by (simp add: fill_alphas_def)

lemma fill_alphas_paint:
  "fill_alphas (paint p) = [clamp (sin (p_life p) * 0.4 + 0.5) 0 1 * baseOpacity (p_type p)]"
  by (subst clamp_sin, cases "p_type p") (simp_all add: fill_alphas_def paint_def Let_def baseOpacity_def)

lemma fill_alphas_paints:
  "fill_alphas (concat (map paint ps)) =
     map (\<lambda>p. clamp (sin (p_life p) * 0.4 + 0.5) 0 1 * baseOpacity (p_type p)) ps"
  by (induction ps) (simp_all add: fill_alphas_append fill_alphas_paint, simp add: fill_alphas_def)

lemma fill_alphas_links:
  "fill_alphas (concat (map (\<lambda>(i, j). stroke_link ps i j (f i j)) xs)) = []"
  by (induction xs) (auto simp: fill_alphas_append stroke_link_def fill_alphas_def)

lemma draw_ctx:
  "ctx (draw s) =
     ctx s @ [ClearRect 0 0 (real (canvas_width s)) (real (canvas_height s))]
     @ concat (map paint (particles (draw s)))
     @ concat (map (\<lambda>(i, j). stroke_link (particles (draw s)) i j (pair_dist (particles (draw s)) i j))
                (connections (particles (draw s))))"
  by (simp add: draw_eq)

lemma draw_two_particles:
  "particles (draw two_particles) =
     [\<lparr> p_x = 200, p_y = 200, p_r = 0.2, p_vx = - 0.1, p_vy = - 0.1, p_life = 0.004, p_type = Acid \<rparr>,
      \<lparr> p_x = 200, p_y = 200, p_r = 0.2, p_vx = - 0.1, p_vy = - 0.1, p_life = 0.004, p_type = Acid \<rparr>]"
  by (simp add: draw_particles advance_eq wrap_def two_particles_eq)

lemma mount_eq:
  "mount rnd s = (draw (resize rnd (s\<lparr> animId := None, particles := [] \<rparr>)))\<lparr> resize_listener := True \<rparr>"
  by (simp add: mount_def Let_def)

lemma draw_requests:
  "frame_requests (draw s) = frame_requests s @ [next_handle s] \<and> animId (draw s) = Some (next_handle s)
   \<and> resize_listener (draw s) = resize_listener s"
  by (simp add: draw_eq)

lemma resize_requests:
  "frame_requests (resize rnd s) = frame_requests s \<and> animId (resize rnd s) = animId s
   \<and> resize_listener (resize rnd s) = resize_listener s"
  by (simp add: resize_eq)

lemma one_request_draw: "frame_requests s = [] \<Longrightarrow> one_request (draw s)"
  by (simp add: one_request_def draw_requests)

lemma one_request_mount: "frame_requests s = [] \<Longrightarrow> one_request (mount rnd s)"
  by (simp add: mount_eq one_request_def draw_requests resize_requests)

lemma one_request_deliver: "one_request s \<Longrightarrow> one_request (deliver rnd s e)"
proof (cases e)
  case Frame
  assume "one_request s"
  then obtain k where "frame_requests s = [k]"
    by (auto simp: one_request_def split: option.splits)
  then show ?thesis
    by (simp add: Frame one_request_draw)
next
  case (WindowResize w h)
  assume "one_request s"
  then show ?thesis
    by (simp add: WindowResize Let_def one_request_def resize_requests split: option.splits)
qed

lemma one_request_run: "one_request s \<Longrightarrow> one_request (run rnd s es)"
  unfolding run_def by (induction es arbitrary: s) (simp_all add: one_request_deliver)

lemma idle_cleanup: "one_request s \<Longrightarrow> idle (cleanup s)"
  by (auto simp: one_request_def idle_def cleanup_def cancelAnimationFrame_def split: option.splits)

lemma idle_deliver:
  "idle s \<Longrightarrow> idle (deliver rnd s e) \<and> particles (deliver rnd s e) = particles s
     \<and> ctx (deliver rnd s e) = ctx s"
  by (cases e) (simp_all add: idle_def Let_def)

lemma idle_run:
  "idle s \<Longrightarrow> idle (run rnd s es) \<and> particles (run rnd s es) = particles s
     \<and> ctx (run rnd s es) = ctx s"
  unfolding run_def
proof (induction es arbitrary: s)
  case Nil
  then show ?case by simp
next
  case (Cons e es)
  from Cons.prems have "idle (deliver rnd s e)"
    and "particles (deliver rnd s e) = particles s" and "ctx (deliver rnd s e) = ctx s"
    by (simp_all add: idle_deliver)
  with Cons.IH [of "deliver rnd s e"] show ?case
    by simp
qed

lemma idle_frame: "idle s \<Longrightarrow> deliver rnd s Frame = s"
proof -
  assume "idle s"
  then have "s\<lparr> frame_requests := [] \<rparr> = s"
    by (simp add: idle_def)
  with \<open>idle s\<close> show ?thesis
    by (simp add: idle_def)
qed

lemma idle_frames: "idle s \<Longrightarrow> run rnd s (replicate n Frame) = s"
  unfolding run_def by (induction n) (simp_all add: idle_frame del: deliver.simps)

lemma cleanup_idem: "cleanup (cleanup s) = cleanup s"
  by (cases "animId s") (simp_all add: cleanup_def cancelAnimationFrame_def)

lemma paint_advance:
  "paint (advance w h p) =
     [BeginPath,
      Arc (wrap (real w) (p_x p + p_vx p)) (wrap (real h) (p_y p + p_vy p)) (p_r p) 0 (2 * pi),
      FillStyle (case p_type p of
                   Cyan \<Rightarrow> Rgba 0 212 255
                     (clamp (sin (p_life p + 0.004) * 0.4 + 0.5) 0 1 * baseOpacity Cyan)
                 | Acid \<Rightarrow> Rgba 57 255 20
                     (clamp (sin (p_life p + 0.004) * 0.4 + 0.5) 0 1 * baseOpacity Acid)),
      Fill]"
  by (subst (1 2) clamp_sin, cases "p_type p")
    (simp_all add: paint_def advance_eq Let_def baseOpacity_def)

lemma fill_alphas_links_outer: "fill_alphas (links_outer ps 0 []) = []"
  by (simp add: links_outer_eq fill_alphas_links)

lemma draw_ctx_circles:
  "ctx (draw s) =
     ctx s @ [ClearRect 0 0 (real (canvas_width s)) (real (canvas_height s))]
     @ concat (map (\<lambda>p. paint (advance (canvas_width s) (canvas_height s) p)) (particles s))
     @ links_outer (particles (draw s)) 0 []"
  by (simp add: draw_eq links_outer_eq connections_def pairs_def comp_def)

lemma mixed_pool_eq:
  "mixed_pool =
     \<lparr> canvas_width = 200, canvas_height = 200, innerWidth = 200, innerHeight = 200,
       particles = [\<lparr> p_x = 0, p_y = 0, p_r = 0.2, p_vx = - 0.1, p_vy = - 0.1, p_life = 0, p_type = Cyan \<rparr>,
                    \<lparr> p_x = 0, p_y = 0, p_r = 0.2, p_vx = - 0.1, p_vy = - 0.1, p_life = 0, p_type = Acid \<rparr>],
       animId = None, rand_calls = 14, ctx = [], frame_requests = [],
       next_handle = 1, resize_listener = False \<rparr>"
  by (simp add: mixed_pool_def resize_eq page_def new_particle_def upt_rec)

lemma draw_mixed_pool:
  "particles (draw mixed_pool) =
     [\<lparr> p_x = 200, p_y = 200, p_r = 0.2, p_vx = - 0.1, p_vy = - 0.1, p_life = 0.004, p_type = Cyan \<rparr>,
      \<lparr> p_x = 200, p_y = 200, p_r = 0.2, p_vx = - 0.1, p_vy = - 0.1, p_life = 0.004, p_type = Acid \<rparr>]"
  by (simp add: draw_particles advance_eq wrap_def mixed_pool_eq)

lemma links_mixed_pool:
  "links_outer (particles (draw mixed_pool)) 0 [] =
     [BeginPath, MoveTo 200 200, LineTo 200 200, StrokeStyle (Rgba 0 212 255 0.07),
      LineWidth 0.5, Stroke]"
  by (simp add: links_outer_eq draw_mixed_pool pairs_from_def upt_rec pair_dist_def hypot_def
      stroke_link_def)

section \<open>Properties of the particle field\<close>

subsection \<open>The pool\<close>

text \<open>
  C3. After \<open>init\<close> the pool holds exactly \<open>floor (width * height / 16000)\<close> particles for
  the dimensions of the canvas, and after \<open>resize\<close> the same for the dimensions of the
  window, which the canvas has taken over. Whenever the product of the dimensions is
  below 16000, a zero width or height included, both return and leave an empty pool.
\<close>

theorem pool_size_after_init:
  "length (particles (init rnd s)) = nat \<lfloor>(real (canvas_width s) * real (canvas_height s)) / 16000\<rfloor>
   \<and> length (particles (resize rnd s)) = nat \<lfloor>(real (innerWidth s) * real (innerHeight s)) / 16000\<rfloor>
   \<and> canvas_width (resize rnd s) = innerWidth s \<and> canvas_height (resize rnd s) = innerHeight s
   \<and> (canvas_width s * canvas_height s < 16000 \<longrightarrow> particles (init rnd s) = [])
   \<and> (innerWidth s * innerHeight s < 16000 \<longrightarrow> particles (resize rnd s) = [])"
  by (simp add: resize_eq init_eq floor_div_16000)

theorem pool_size_after_init_witness:
  "innerWidth (page 400 400) * innerHeight (page 400 400) = 160000
   \<and> length (particles (resize (\<lambda>k. 1 / 2) (page 400 400))) = 10
   \<and> innerWidth (page 0 0) * innerHeight (page 0 0) < 16000
   \<and> particles (resize (\<lambda>k. 1 / 2) (page 0 0)) = []
   \<and> canvas_width (page 100 100\<lparr> canvas_width := 100, canvas_height := 100 \<rparr>) * canvas_height (page 100 100\<lparr> canvas_width := 100, canvas_height := 100 \<rparr>) < 16000
   \<and> particles (init (\<lambda>k. 1 / 2) (page 100 100\<lparr> canvas_width := 100, canvas_height := 100 \<rparr>)) = []"
  using pool_size_after_init [of "\<lambda>k. 1 / 2" "page 400 400"]
    pool_size_after_init [of "\<lambda>k. 1 / 2" "page 0 0"]
    pool_size_after_init [of "\<lambda>k. 1 / 2" "page 100 100\<lparr> canvas_width := 100, canvas_height := 100 \<rparr>"]
  by (simp add: page_def)

subsection \<open>The simulation step\<close>

text \<open>
  C4. One frame adds 0.004 to the phase of every particle and the velocity to the
  position, then wraps the x coordinate against the width and the y coordinate against
  the height, each on its own. The pool after the frame is a function of the pool and of
  the bounds before it alone; the bounds and the random stream are left as they were.
\<close>

theorem simulation_step:
  "particles (draw s) =
     map (\<lambda>p. p\<lparr> p_life := p_life p + 0.004,
                 p_x := wrap (real (canvas_width s)) (p_x p + p_vx p),
                 p_y := wrap (real (canvas_height s)) (p_y p + p_vy p) \<rparr>) (particles s)
   \<and> canvas_width (draw s) = canvas_width s
   \<and> canvas_height (draw s) = canvas_height s
   \<and> rand_calls (draw s) = rand_calls s
   \<and> (particles s = particles t \<and> canvas_width s = canvas_width t \<and> canvas_height s = canvas_height t
        \<longrightarrow> particles (draw s) = particles (draw t))"
  by (simp add: draw_eq advance_eq)

theorem simulation_step_witness:
  "particles (draw two_particles) =
     [\<lparr> p_x = 200, p_y = 200, p_r = 0.2, p_vx = - 0.1, p_vy = - 0.1, p_life = 0.004, p_type = Acid \<rparr>,
      \<lparr> p_x = 200, p_y = 200, p_r = 0.2, p_vx = - 0.1, p_vy = - 0.1, p_life = 0.004, p_type = Acid \<rparr>]
   \<and> particles two_particles = particles (two_particles\<lparr> ctx := [Fill] \<rparr>)
   \<and> particles (draw two_particles) = particles (draw (two_particles\<lparr> ctx := [Fill] \<rparr>))"
proof -
  note step = simulation_step [of two_particles "two_particles\<lparr> ctx := [Fill] \<rparr>"]
  have same: "particles two_particles = particles (two_particles\<lparr> ctx := [Fill] \<rparr>)"
    by simp
  from step have "particles (draw two_particles) =
      map (\<lambda>p. p\<lparr> p_life := p_life p + 0.004,
                 p_x := wrap (real (canvas_width two_particles)) (p_x p + p_vx p),
                 p_y := wrap (real (canvas_height two_particles)) (p_y p + p_vy p) \<rparr>)
        (particles two_particles)"
    by (rule conjunct1)
  then have moved: "particles (draw two_particles) =
     [\<lparr> p_x = 200, p_y = 200, p_r = 0.2, p_vx = - 0.1, p_vy = - 0.1, p_life = 0.004, p_type = Acid \<rparr>,
      \<lparr> p_x = 200, p_y = 200, p_r = 0.2, p_vx = - 0.1, p_vy = - 0.1, p_life = 0.004, p_type = Acid \<rparr>]"
    by (simp add: two_particles_eq wrap_def)
  have "canvas_width two_particles = canvas_width (two_particles\<lparr> ctx := [Fill] \<rparr>)"
    and "canvas_height two_particles = canvas_height (two_particles\<lparr> ctx := [Fill] \<rparr>)"
    by simp_all
  with step same
  have "particles (draw two_particles) = particles (draw (two_particles\<lparr> ctx := [Fill] \<rparr>))"
    by blast
  with same moved show ?thesis
    by (intro conjI)
qed

text \<open>
  C8. Whatever the number of frames, every particle has the radius, the velocity and the
  kind it was created with, and the pool has the same length: a frame writes the
  position and the phase only.
\<close>

theorem created_fields_kept:
  "map p_r (particles ((draw ^^ n) s)) = map p_r (particles s)
   \<and> map p_vx (particles ((draw ^^ n) s)) = map p_vx (particles s)
   \<and> map p_vy (particles ((draw ^^ n) s)) = map p_vy (particles s)
   \<and> map p_type (particles ((draw ^^ n) s)) = map p_type (particles s)
   \<and> length (particles ((draw ^^ n) s)) = length (particles s)"
proof -
  have "p_r ((advance w h ^^ n) p) = p_r p \<and> p_vx ((advance w h ^^ n) p) = p_vx p
      \<and> p_vy ((advance w h ^^ n) p) = p_vy p \<and> p_type ((advance w h ^^ n) p) = p_type p"
    for w h p
    by (induction n) (simp_all add: advance_eq)
  then show ?thesis
    by (simp add: frames_particles comp_def)
qed

subsection \<open>Wrap-around\<close>

text \<open>
  C10. The wrap-around drops the overshoot. A coordinate that the velocity has made
  negative becomes the bound itself, one that has passed the bound becomes 0, and one
  that has landed on the bound stays there. So there is a pool, with its particle inside
  the half-open range, whose particle has an x coordinate equal to the width after one
  frame.
\<close>

theorem wrap_overshoot:
  "(k < length (particles s) \<longrightarrow>
      (let p = particles s ! k; q = particles (draw s) ! k;
           w = real (canvas_width s); h = real (canvas_height s)
       in (p_x p + p_vx p < 0 \<longrightarrow> p_x q = w)
        \<and> (p_x p + p_vx p > w \<longrightarrow> p_x q = 0)
        \<and> (p_x p + p_vx p = w \<longrightarrow> p_x q = w)
        \<and> (p_y p + p_vy p < 0 \<longrightarrow> p_y q = h)
        \<and> (p_y p + p_vy p > h \<longrightarrow> p_y q = 0)
        \<and> (p_y p + p_vy p = h \<longrightarrow> p_y q = h)))
   \<and> (\<exists>t. 0 < length (particles t)
          \<and> 0 \<le> p_x (particles t ! 0) \<and> p_x (particles t ! 0) < real (canvas_width t)
          \<and> p_x (particles (draw t) ! 0) = real (canvas_width t))"
proof (intro conjI impI)
  assume "k < length (particles s)"
  then show "let p = particles s ! k; q = particles (draw s) ! k;
                 w = real (canvas_width s); h = real (canvas_height s)
             in (p_x p + p_vx p < 0 \<longrightarrow> p_x q = w)
              \<and> (p_x p + p_vx p > w \<longrightarrow> p_x q = 0)
              \<and> (p_x p + p_vx p = w \<longrightarrow> p_x q = w)
              \<and> (p_y p + p_vy p < 0 \<longrightarrow> p_y q = h)
              \<and> (p_y p + p_vy p > h \<longrightarrow> p_y q = 0)
              \<and> (p_y p + p_vy p = h \<longrightarrow> p_y q = h)"
    by (simp add: Let_def draw_particles advance_eq wrap_def)
next
  have "0 < length (particles two_particles)
      \<and> 0 \<le> p_x (particles two_particles ! 0)
      \<and> p_x (particles two_particles ! 0) < real (canvas_width two_particles)
      \<and> p_x (particles (draw two_particles) ! 0) = real (canvas_width two_particles)"
    by (simp add: draw_particles advance_eq wrap_def two_particles_eq)
  then show "\<exists>t. 0 < length (particles t)
          \<and> 0 \<le> p_x (particles t ! 0) \<and> p_x (particles t ! 0) < real (canvas_width t)
          \<and> p_x (particles (draw t) ! 0) = real (canvas_width t)"
    by (rule exI)
qed

theorem wrap_overshoot_witness:
  "0 < length (particles two_particles)
   \<and> p_x (particles two_particles ! 0) + p_vx (particles two_particles ! 0) < 0
   \<and> p_x (particles (draw two_particles) ! 0) = real (canvas_width two_particles)
   \<and> p_y (particles two_particles ! 0) + p_vy (particles two_particles ! 0) < 0
   \<and> p_y (particles (draw two_particles) ! 0) = real (canvas_height two_particles)"
proof -
  have len: "0 < length (particles two_particles)"
    by (simp add: two_particles_eq)
  have x: "p_x (particles two_particles ! 0) + p_vx (particles two_particles ! 0) < 0"
    and y: "p_y (particles two_particles ! 0) + p_vy (particles two_particles ! 0) < 0"
    by (simp_all add: two_particles_eq)
  from wrap_overshoot [of 0 two_particles] len x y
  have "p_x (particles (draw two_particles) ! 0) = real (canvas_width two_particles)"
    and "p_y (particles (draw two_particles) ! 0) = real (canvas_height two_particles)"
    by (simp_all add: Let_def)
  with len x y show ?thesis
    by (intro conjI)
qed

text \<open>
  C1, as stated, fails: of a pool that starts inside the half-open ranges, a particle
  at the left and upper edge moving outwards is put on the width and the height by one
  frame.
\<close>

theorem wrap_half_open_counterexample:
  "particles two_particles =
     [\<lparr> p_x = 0, p_y = 0, p_r = 0.2, p_vx = - 0.1, p_vy = - 0.1, p_life = 0, p_type = Acid \<rparr>,
      \<lparr> p_x = 0, p_y = 0, p_r = 0.2, p_vx = - 0.1, p_vy = - 0.1, p_life = 0, p_type = Acid \<rparr>]
   \<and> canvas_width two_particles = 200
   \<and> canvas_height two_particles = 200
   \<and> canvas_width (draw two_particles) = 200
   \<and> canvas_height (draw two_particles) = 200
   \<and> map p_x (particles (draw two_particles)) = [200, 200]
   \<and> map p_y (particles (draw two_particles)) = [200, 200]
   \<and> \<not> p_x (particles (draw two_particles) ! 0) < real (canvas_width (draw two_particles))"
  by (simp add: draw_particles draw_canvas advance_eq wrap_def two_particles_eq)

text \<open>
  C1, amended. For a pool whose particles start with positions in
  \<open>[0, width) \<times> [0, height)\<close>, after any number of frames every particle has
  \<open>0 \<le> x \<le> width\<close> and \<open>0 \<le> y \<le> height\<close>: the ranges are closed at the bounds.
\<close>

theorem wrap_invariant_closed:
  assumes "\<forall>p \<in> set (particles s). 0 \<le> p_x p \<and> p_x p < real (canvas_width s)
                                  \<and> 0 \<le> p_y p \<and> p_y p < real (canvas_height s)"
  shows "\<forall>p \<in> set (particles ((draw ^^ n) s)).
           0 \<le> p_x p \<and> p_x p \<le> real (canvas_width ((draw ^^ n) s))
         \<and> 0 \<le> p_y p \<and> p_y p \<le> real (canvas_height ((draw ^^ n) s))"
proof -
  have "in_closed_bounds (canvas_width s) (canvas_height s) p" if "p \<in> set (particles s)" for p
    using assms that by (force simp: in_closed_bounds_def)
  then have "in_closed_bounds (canvas_width s) (canvas_height s)
               ((advance (canvas_width s) (canvas_height s) ^^ n) p)"
    if "p \<in> set (particles s)" for p
    using that by (simp add: advance_iter_closed)
  then show ?thesis
    by (auto simp: frames_particles frames_canvas in_closed_bounds_def)
qed

theorem wrap_invariant_closed_witness:
  "0 \<le> p_x (particles two_particles ! 0) \<and> p_x (particles two_particles ! 0) < real (canvas_width two_particles)
   \<and> 0 \<le> p_x (particles two_particles ! 1) \<and> p_x (particles two_particles ! 1) < real (canvas_width two_particles)
   \<and> 0 \<le> p_y (particles two_particles ! 0) \<and> p_y (particles two_particles ! 0) < real (canvas_height two_particles)
   \<and> 0 \<le> p_y (particles two_particles ! 1) \<and> p_y (particles two_particles ! 1) < real (canvas_height two_particles)
   \<and> length (particles two_particles) = 2
   \<and> p_x (particles ((draw ^^ 3) two_particles) ! 0) \<le> real (canvas_width ((draw ^^ 3) two_particles))
   \<and> 0 \<le> p_x (particles ((draw ^^ 3) two_particles) ! 0)
   \<and> p_y (particles ((draw ^^ 3) two_particles) ! 0) \<le> real (canvas_height ((draw ^^ 3) two_particles))
   \<and> 0 \<le> p_y (particles ((draw ^^ 3) two_particles) ! 0)"
proof -
  have start: "\<forall>p \<in> set (particles two_particles).
      0 \<le> p_x p \<and> p_x p < real (canvas_width two_particles)
    \<and> 0 \<le> p_y p \<and> p_y p < real (canvas_height two_particles)"
    by (simp add: two_particles_eq)
  have "particles ((draw ^^ 3) two_particles) ! 0 \<in> set (particles ((draw ^^ 3) two_particles))"
    by (rule nth_mem) (simp add: frames_particles two_particles_eq)
  with wrap_invariant_closed [OF start, of 3]
  have "0 \<le> p_x (particles ((draw ^^ 3) two_particles) ! 0)
      \<and> p_x (particles ((draw ^^ 3) two_particles) ! 0) \<le> real (canvas_width ((draw ^^ 3) two_particles))
      \<and> 0 \<le> p_y (particles ((draw ^^ 3) two_particles) ! 0)
      \<and> p_y (particles ((draw ^^ 3) two_particles) ! 0) \<le> real (canvas_height ((draw ^^ 3) two_particles))"
    by blast
  moreover have "0 \<le> p_x (particles two_particles ! 0) \<and> p_x (particles two_particles ! 0) < real (canvas_width two_particles)
   \<and> 0 \<le> p_x (particles two_particles ! 1) \<and> p_x (particles two_particles ! 1) < real (canvas_width two_particles)
   \<and> 0 \<le> p_y (particles two_particles ! 0) \<and> p_y (particles two_particles ! 0) < real (canvas_height two_particles)
   \<and> 0 \<le> p_y (particles two_particles ! 1) \<and> p_y (particles two_particles ! 1) < real (canvas_height two_particles)
   \<and> length (particles two_particles) = 2"
    by (simp add: two_particles_eq)
  ultimately show ?thesis
    by blast
qed

subsection \<open>The frame renderer\<close>

text \<open>
  C5. A frame paints, after clearing and before any connection line, one circle for each
  particle of the pool it was given, in the order of the pool: it begins a path, adds
  the arc of the particle's radius at its position after the step, sets the fill style
  and then fills. The alpha of that fill style is
  \<open>clamp (sin phase * 0.4 + 0.5) 0 1 * baseOpacity kind\<close> for the phase after the step (the
  phase before it plus 0.004), where the base opacity is 0.6 for a cyan (primary)
  particle and 0.42 for an acid (accent) one: 70 percent of the former. The lines
  stroked afterwards set no fill style, so these are all the fill alphas of the frame.
\<close>

theorem fill_alpha:
  "ctx (draw s) =
     ctx s @ [ClearRect 0 0 (real (canvas_width s)) (real (canvas_height s))]
     @ concat (map (\<lambda>p.
         [BeginPath,
          Arc (wrap (real (canvas_width s)) (p_x p + p_vx p))
              (wrap (real (canvas_height s)) (p_y p + p_vy p)) (p_r p) 0 (2 * pi),
          FillStyle (case p_type p of
                       Cyan \<Rightarrow> Rgba 0 212 255
                         (clamp (sin (p_life p + 0.004) * 0.4 + 0.5) 0 1 * baseOpacity Cyan)
                     | Acid \<Rightarrow> Rgba 57 255 20
                         (clamp (sin (p_life p + 0.004) * 0.4 + 0.5) 0 1 * baseOpacity Acid)),
          Fill]) (particles s))
     @ links_outer (particles (draw s)) 0 []
   \<and> fill_alphas (links_outer (particles (draw s)) 0 []) = []
   \<and> fill_alphas (ctx (draw s)) =
       fill_alphas (ctx s) @
       map (\<lambda>p. clamp (sin (p_life p + 0.004) * 0.4 + 0.5) 0 1 * baseOpacity (p_type p)) (particles s)
   \<and> map p_life (particles (draw s)) = map (\<lambda>p. p_life p + 0.004) (particles s)
   \<and> map p_type (particles (draw s)) = map p_type (particles s)
   \<and> fill_alphas (ctx (draw s)) =
       fill_alphas (ctx s) @
       map (\<lambda>p. clamp (sin (p_life p) * 0.4 + 0.5) 0 1 * baseOpacity (p_type p)) (particles (draw s))
   \<and> baseOpacity Cyan = 0.6 \<and> baseOpacity Acid = 0.42
   \<and> baseOpacity Acid = 0.7 * baseOpacity Cyan"
proof (intro conjI)
  show "ctx (draw s) =
     ctx s @ [ClearRect 0 0 (real (canvas_width s)) (real (canvas_height s))]
     @ concat (map (\<lambda>p.
         [BeginPath,
          Arc (wrap (real (canvas_width s)) (p_x p + p_vx p))
              (wrap (real (canvas_height s)) (p_y p + p_vy p)) (p_r p) 0 (2 * pi),
          FillStyle (case p_type p of
                       Cyan \<Rightarrow> Rgba 0 212 255
                         (clamp (sin (p_life p + 0.004) * 0.4 + 0.5) 0 1 * baseOpacity Cyan)
                     | Acid \<Rightarrow> Rgba 57 255 20
                         (clamp (sin (p_life p + 0.004) * 0.4 + 0.5) 0 1 * baseOpacity Acid)),
          Fill]) (particles s))
     @ links_outer (particles (draw s)) 0 []"
    by (subst draw_ctx_circles) (simp only: paint_advance)
  show "fill_alphas (links_outer (particles (draw s)) 0 []) = []"
    by (rule fill_alphas_links_outer)
  have clear: "fill_alphas [ClearRect 0 0 (real (canvas_width s)) (real (canvas_height s))] = []"
    by (simp add: fill_alphas_def)
  have "fill_alphas (ctx (draw s)) =
      fill_alphas (ctx s)
      @ fill_alphas [ClearRect 0 0 (real (canvas_width s)) (real (canvas_height s))]
      @ fill_alphas (concat (map paint (particles (draw s))))
      @ fill_alphas (concat (map (\<lambda>(i, j). stroke_link (particles (draw s)) i j
                                              (pair_dist (particles (draw s)) i j))
                              (connections (particles (draw s)))))"
    by (subst draw_ctx) (simp only: fill_alphas_append)
  also have "\<dots> = fill_alphas (ctx s) @
      map (\<lambda>p. clamp (sin (p_life p) * 0.4 + 0.5) 0 1 * baseOpacity (p_type p)) (particles (draw s))"
    by (simp only: clear fill_alphas_paints fill_alphas_links append_Nil append_Nil2)
  finally show after: "fill_alphas (ctx (draw s)) =
       fill_alphas (ctx s) @
       map (\<lambda>p. clamp (sin (p_life p) * 0.4 + 0.5) 0 1 * baseOpacity (p_type p)) (particles (draw s))" .
  show "map p_life (particles (draw s)) = map (\<lambda>p. p_life p + 0.004) (particles s)"
    and types: "map p_type (particles (draw s)) = map p_type (particles s)"
    by (simp_all add: draw_particles advance_eq comp_def)
  have "map (\<lambda>p. clamp (sin (p_life p) * 0.4 + 0.5) 0 1 * baseOpacity (p_type p)) (particles (draw s))
      = map (\<lambda>p. clamp (sin (p_life p + 0.004) * 0.4 + 0.5) 0 1 * baseOpacity (p_type p)) (particles s)"
    by (simp only: draw_particles map_map comp_def advance_eq) simp
  then show "fill_alphas (ctx (draw s)) =
       fill_alphas (ctx s) @
       map (\<lambda>p. clamp (sin (p_life p + 0.004) * 0.4 + 0.5) 0 1 * baseOpacity (p_type p)) (particles s)"
    by (rule subst [where P = "\<lambda>x. fill_alphas (ctx (draw s)) = fill_alphas (ctx s) @ x"])
      (rule after)
qed (simp_all add: baseOpacity_def)

theorem fill_alpha_witness:
  "ctx (draw mixed_pool) =
     [ClearRect 0 0 200 200,
      BeginPath, Arc 200 200 0.2 0 (2 * pi),
      FillStyle (Rgba 0 212 255 (clamp (sin 0.004 * 0.4 + 0.5) 0 1 * 0.6)), Fill,
      BeginPath, Arc 200 200 0.2 0 (2 * pi),
      FillStyle (Rgba 57 255 20 (clamp (sin 0.004 * 0.4 + 0.5) 0 1 * 0.42)), Fill,
      BeginPath, MoveTo 200 200, LineTo 200 200, StrokeStyle (Rgba 0 212 255 0.07),
      LineWidth 0.5, Stroke]"
proof -
  from fill_alpha [of mixed_pool]
  have "ctx (draw mixed_pool) =
     ctx mixed_pool @ [ClearRect 0 0 (real (canvas_width mixed_pool)) (real (canvas_height mixed_pool))]
     @ concat (map (\<lambda>p.
         [BeginPath,
          Arc (wrap (real (canvas_width mixed_pool)) (p_x p + p_vx p))
              (wrap (real (canvas_height mixed_pool)) (p_y p + p_vy p)) (p_r p) 0 (2 * pi),
          FillStyle (case p_type p of
                       Cyan \<Rightarrow> Rgba 0 212 255
                         (clamp (sin (p_life p + 0.004) * 0.4 + 0.5) 0 1 * baseOpacity Cyan)
                     | Acid \<Rightarrow> Rgba 57 255 20
                         (clamp (sin (p_life p + 0.004) * 0.4 + 0.5) 0 1 * baseOpacity Acid)),
          Fill]) (particles mixed_pool))
     @ links_outer (particles (draw mixed_pool)) 0 []"
    by (rule conjunct1)
  then show ?thesis
    by (simp only: links_mixed_pool) (simp add: mixed_pool_eq wrap_def baseOpacity_def)
qed

text \<open>
  C2. After the clearing and the circles, a frame strokes one line for each index pair
  of \<open>connections\<close>, in order, and nothing else. A pair \<open>(i, j)\<close> is among them, once,
  exactly when \<open>i < j\<close>, both are indices of the pool and the Euclidean distance of the
  two positions is below 90; its stroke style has alpha \<open>0.07 * (1 - d / 90)\<close>, which
  decreases strictly as the distance grows.
\<close>

theorem connection_evaluator:
  "ctx (draw s) =
     ctx s @ [ClearRect 0 0 (real (canvas_width s)) (real (canvas_height s))]
     @ concat (map paint (particles (draw s)))
     @ concat (map (\<lambda>(i, j). stroke_link (particles (draw s)) i j (pair_dist (particles (draw s)) i j))
                (connections (particles (draw s))))
   \<and> distinct (connections ps)
   \<and> ((i, j) \<in> set (connections ps) \<longleftrightarrow> i < j \<and> j < length ps \<and> pair_dist ps i j < 90)
   \<and> pair_dist ps i j = sqrt ((p_x (ps ! i) - p_x (ps ! j))\<^sup>2 + (p_y (ps ! i) - p_y (ps ! j))\<^sup>2)
   \<and> stroke_link ps i j d =
       [BeginPath, MoveTo (p_x (ps ! i)) (p_y (ps ! i)), LineTo (p_x (ps ! j)) (p_y (ps ! j)),
        StrokeStyle (Rgba 0 212 255 (linkAlpha d)), LineWidth 0.5, Stroke]
   \<and> linkAlpha d = 0.07 * (1 - d / 90)
   \<and> (d1 < d2 \<longrightarrow> linkAlpha d2 < linkAlpha d1)"
proof (intro conjI impI)
  show "distinct (connections ps)"
    by (simp add: connections_def pairs_def distinct_pairs_from)
  show "(i, j) \<in> set (connections ps) \<longleftrightarrow> i < j \<and> j < length ps \<and> pair_dist ps i j < 90"
    by (auto simp: connections_def pairs_def set_pairs_from)
  show "pair_dist ps i j = sqrt ((p_x (ps ! i) - p_x (ps ! j))\<^sup>2 + (p_y (ps ! i) - p_y (ps ! j))\<^sup>2)"
    by (simp add: pair_dist_def hypot_def Let_def power2_eq_square)
  show "linkAlpha d2 < linkAlpha d1" if "d1 < d2"
    using that by (simp add: linkAlpha_def)
qed (simp_all add: draw_ctx [of s] stroke_link_def linkAlpha_def)

theorem connection_evaluator_witness:
  "(0::real) < 45 \<and> linkAlpha 45 < linkAlpha 0
   \<and> pair_dist (particles (draw two_particles)) 0 1 = 0
   \<and> (0, 1) \<in> set (connections (particles (draw two_particles)))
   \<and> linkAlpha (899 / 10) = 7 / 90000"
proof -
  note ce = connection_evaluator [of two_particles "particles (draw two_particles)" 0 1 "899 / 10" 0 45]
  have d: "pair_dist (particles (draw two_particles)) 0 1 = 0"
    by (simp add: draw_two_particles pair_dist_def hypot_def)
  have len: "1 < length (particles (draw two_particles))"
    by (simp add: draw_two_particles)
  have near: "pair_dist (particles (draw two_particles)) 0 1 < 90"
    by (subst d) simp
  have "(0::nat) < 1"
    by simp
  with len near ce have m: "(0, 1) \<in> set (connections (particles (draw two_particles)))"
    by blast
  have lt: "(0::real) < 45"
    by simp
  with ce have mono: "linkAlpha 45 < linkAlpha 0"
    by blast
  from ce have "linkAlpha (899 / 10) = 0.07 * (1 - (899 / 10) / 90)"
    by blast
  then have "linkAlpha (899 / 10) = 7 / 90000"
    by simp
  with lt mono d m show ?thesis
    by (intro conjI)
qed

subsection \<open>Creation and re-creation of the pool\<close>

text \<open>
  C6. \<open>resize\<close> never looks at the pool it finds: the result is the same for any old pool
  as for the empty one. The pool it leaves consists of \<open>floor (w * h / 16000)\<close> particles
  for the dimensions of the window, each made from seven draws that no earlier call has
  consumed. A second \<open>resize\<close> with the same dimensions builds a pool of the same size
  again, from the draws after those of the first. A resize signal delivered to a
  listening component does this whatever the dimensions were before.
\<close>

theorem resize_unconditional:
  "resize rnd (s\<lparr> particles := old \<rparr>) = resize rnd (s\<lparr> particles := [] \<rparr>)
   \<and> particles (resize rnd s) =
       map (\<lambda>k. new_particle rnd (rand_calls s + 7 * k) (innerWidth s) (innerHeight s))
         [0 ..< nat \<lfloor>(real (innerWidth s) * real (innerHeight s)) / 16000\<rfloor>]
   \<and> rand_calls (resize rnd s) =
       rand_calls s + 7 * nat \<lfloor>(real (innerWidth s) * real (innerHeight s)) / 16000\<rfloor>
   \<and> innerWidth (resize rnd s) = innerWidth s \<and> innerHeight (resize rnd s) = innerHeight s
   \<and> particles (resize rnd (resize rnd s)) =
       map (\<lambda>k. new_particle rnd (rand_calls (resize rnd s) + 7 * k) (innerWidth s) (innerHeight s))
         [0 ..< nat \<lfloor>(real (innerWidth s) * real (innerHeight s)) / 16000\<rfloor>]
   \<and> length (particles (resize rnd (resize rnd s))) =
       nat \<lfloor>(real (innerWidth s) * real (innerHeight s)) / 16000\<rfloor>
   \<and> (resize_listener s \<longrightarrow>
        particles (deliver rnd s (WindowResize w h)) =
          map (\<lambda>k. new_particle rnd (rand_calls s + 7 * k) w h)
            [0 ..< nat \<lfloor>(real w * real h) / 16000\<rfloor>])"
  by (simp add: resize_eq floor_div_16000 Let_def)

theorem resize_unconditional_witness:
  "resize_listener (mount (\<lambda>k. 0) (page 200 200))
   \<and> length (particles (deliver (\<lambda>k. 0) (mount (\<lambda>k. 0) (page 200 200)) (WindowResize 200 200))) = 2"
proof -
  have listening: "resize_listener (mount (\<lambda>k. 0) (page 200 200))"
    by (simp add: mount_eq)
  have "nat \<lfloor>(real 200 * real 200) / 16000\<rfloor> = 2"
    by (simp add: floor_div_16000)
  with resize_unconditional [where rnd = "\<lambda>k. 0" and s = "mount (\<lambda>k. 0) (page 200 200)"
      and w = 200 and h = 200] listening
  have "length (particles (deliver (\<lambda>k. 0) (mount (\<lambda>k. 0) (page 200 200)) (WindowResize 200 200))) = 2"
    by (simp del: deliver.simps)
  with listening show ?thesis
    by (intro conjI)
qed

text \<open>
  C9. If every random draw lies in \<open>[0, 1)\<close>, every particle made by \<open>init\<close> has a
  radius in \<open>[0.2, 1.6)\<close>, both velocity components in \<open>[-0.1, 0.1)\<close>, a phase in
  \<open>[0, 2 pi)\<close> and a kind that is cyan (primary) or acid (accent): cyan exactly when its
  seventh draw exceeds 0.4. The draws of \<open>[0, 1)\<close> that give cyan are the interval from
  0.4 to 1, of length 0.6, and those that give acid the interval from 0 to 0.4.
\<close>

theorem created_particle_ranges:
  assumes "\<forall>k. 0 \<le> rnd k \<and> rnd k < 1"
  shows "(\<forall>p \<in> set (particles (init rnd s)).
            0.2 \<le> p_r p \<and> p_r p < 1.6
          \<and> - 0.1 \<le> p_vx p \<and> p_vx p < 0.1
          \<and> - 0.1 \<le> p_vy p \<and> p_vy p < 0.1
          \<and> 0 \<le> p_life p \<and> p_life p < 2 * pi
          \<and> (p_type p = Cyan \<or> p_type p = Acid))
       \<and> (k < length (particles (init rnd s)) \<longrightarrow>
            (p_type (particles (init rnd s) ! k) = Cyan \<longleftrightarrow> rnd (rand_calls s + 7 * k + 6) > 0.4))
       \<and> {d. 0 \<le> d \<and> d < 1 \<and> p_type (new_particle (\<lambda>_. d) 0 w h) = Cyan} = {0.4 <..< 0.4 + 0.6}
       \<and> {d. 0 \<le> d \<and> d < 1 \<and> p_type (new_particle (\<lambda>_. d) 0 w h) = Acid} = {0 .. 0.4}"
proof (intro conjI ballI impI)
  fix p assume "p \<in> set (particles (init rnd s))"
  then obtain j where p: "p = new_particle rnd j (canvas_width s) (canvas_height s)"
    by (auto simp: init_eq)
  have r: "0 \<le> rnd i" "rnd i < 1" for i
    using assms by simp_all
  show "0.2 \<le> p_r p" "p_r p < 1.6"
    using r [of "j + 2"] by (simp_all add: p new_particle_def)
  show "- 0.1 \<le> p_vx p" "p_vx p < 0.1"
    using r [of "j + 3"] by (simp_all add: p new_particle_def)
  show "- 0.1 \<le> p_vy p" "p_vy p < 0.1"
    using r [of "j + 4"] by (simp_all add: p new_particle_def)
  show "0 \<le> p_life p" "p_life p < 2 * pi"
    using r [of "j + 5"] by (simp_all add: p new_particle_def)
  show "p_type p = Cyan \<or> p_type p = Acid"
    by (cases "p_type p") simp_all
next
  assume "k < length (particles (init rnd s))"
  then show "p_type (particles (init rnd s) ! k) = Cyan \<longleftrightarrow> rnd (rand_calls s + 7 * k + 6) > 0.4"
    by (simp add: init_eq new_particle_def)
next
  show "{d. 0 \<le> d \<and> d < 1 \<and> p_type (new_particle (\<lambda>_. d) 0 w h) = Cyan} = {0.4 <..< 0.4 + 0.6}"
    by (auto simp: new_particle_def)
  show "{d. 0 \<le> d \<and> d < 1 \<and> p_type (new_particle (\<lambda>_. d) 0 w h) = Acid} = {0 .. 0.4}"
    by (auto simp: new_particle_def)
qed

theorem created_particle_ranges_witness:
  "(0::real) \<le> 1 / 2 \<and> (1 / 2 :: real) < 1
   \<and> 0 < length (particles (init (\<lambda>k. 1 / 2) (page 0 0)))
   \<and> 0.2 \<le> p_r (particles (init (\<lambda>k. 1 / 2) (page 0 0)) ! 0)
   \<and> p_r (particles (init (\<lambda>k. 1 / 2) (page 0 0)) ! 0) < 1.6
   \<and> p_life (particles (init (\<lambda>k. 1 / 2) (page 0 0)) ! 0) < 2 * pi
   \<and> p_type (particles (init (\<lambda>k. 1 / 2) (page 0 0)) ! 0) = Cyan"
proof -
  have draws: "\<forall>k::nat. (0::real) \<le> 1 / 2 \<and> (1 / 2 :: real) < 1"
    by simp
  have len: "0 < length (particles (init (\<lambda>k. 1 / 2) (page 0 0)))"
    by (simp add: init_eq page_def)
  then have mem: "particles (init (\<lambda>k. 1 / 2) (page 0 0)) ! 0 \<in> set (particles (init (\<lambda>k. 1 / 2) (page 0 0)))"
    by (rule nth_mem)
  note th = created_particle_ranges [where rnd = "\<lambda>k. 1 / 2" and s = "page 0 0" and k = 0, OF draws]
  from th mem have r: "0.2 \<le> p_r (particles (init (\<lambda>k. 1 / 2) (page 0 0)) ! 0)
      \<and> p_r (particles (init (\<lambda>k. 1 / 2) (page 0 0)) ! 0) < 1.6
      \<and> p_life (particles (init (\<lambda>k. 1 / 2) (page 0 0)) ! 0) < 2 * pi"
    by blast
  from th len have "p_type (particles (init (\<lambda>k. 1 / 2) (page 0 0)) ! 0) = Cyan
      \<longleftrightarrow> (1 / 2 :: real) > 0.4"
    by blast
  then have "p_type (particles (init (\<lambda>k. 1 / 2) (page 0 0)) ! 0) = Cyan"
    by simp
  with r len show ?thesis
    by simp
qed

subsection \<open>Stopping\<close>

text \<open>
  C7. Take a component mounted on a page with no frame request of its own, and let the
  host deliver any frames and resize signals. After the cleanup, whatever the host
  delivers next leaves the pool and the calls made on the context as they are and
  queues no request; frames alone leave the whole state as it is. The cleanup can be
  repeated without effect, and with no request queued it only removes the listener.
\<close>

theorem stop_is_final:
  assumes "frame_requests s0 = []"
  shows "(let t = cleanup (run rnd (mount rnd s0) es)
          in particles (run rnd t es') = particles t
           \<and> ctx (run rnd t es') = ctx t
           \<and> frame_requests (run rnd t es') = []
           \<and> run rnd t (replicate n Frame) = t)
       \<and> cleanup (cleanup u) = cleanup u
       \<and> (frame_requests u = [] \<longrightarrow> cleanup u = u\<lparr> resize_listener := False \<rparr>)"
proof -
  have "one_request (run rnd (mount rnd s0) es)"
    using assms by (simp add: one_request_mount one_request_run)
  then have t: "idle (cleanup (run rnd (mount rnd s0) es))"
    by (rule idle_cleanup)
  have "cleanup u = u\<lparr> resize_listener := False \<rparr>" if "frame_requests u = []"
    using that by (cases "animId u") (simp_all add: cleanup_def cancelAnimationFrame_def)
  with idle_run [OF t, of rnd es'] idle_frames [OF t, of rnd n] show ?thesis
    by (simp add: Let_def cleanup_idem idle_def)
qed

theorem stop_is_final_witness:
  "frame_requests (page 200 200) = []
   \<and> particles (run (\<lambda>k. 0) (cleanup (run (\<lambda>k. 0) (mount (\<lambda>k. 0) (page 200 200)) [Frame, WindowResize 100 400, Frame]))
                 [Frame, WindowResize 300 300, Frame])
     = particles (cleanup (run (\<lambda>k. 0) (mount (\<lambda>k. 0) (page 200 200)) [Frame, WindowResize 100 400, Frame]))
   \<and> ctx (run (\<lambda>k. 0) (cleanup (run (\<lambda>k. 0) (mount (\<lambda>k. 0) (page 200 200)) [Frame, WindowResize 100 400, Frame]))
                 [Frame, WindowResize 300 300, Frame])
     = ctx (cleanup (run (\<lambda>k. 0) (mount (\<lambda>k. 0) (page 200 200)) [Frame, WindowResize 100 400, Frame]))
   \<and> frame_requests (page 0 0) = []
   \<and> cleanup (page 0 0) = (page 0 0)\<lparr> resize_listener := False \<rparr>"
proof -
  have none: "frame_requests (page 200 200) = []" and none': "frame_requests (page 0 0) = []"
    by (simp_all add: page_def)
  note th = stop_is_final [where rnd = "\<lambda>k. 0" and es = "[Frame, WindowResize 100 400, Frame]"
      and es' = "[Frame, WindowResize 300 300, Frame]" and u = "page 0 0", OF none]
  from th none' have "cleanup (page 0 0) = (page 0 0)\<lparr> resize_listener := False \<rparr>"
    by blast
  moreover from th
  have "particles (run (\<lambda>k. 0) (cleanup (run (\<lambda>k. 0) (mount (\<lambda>k. 0) (page 200 200)) [Frame, WindowResize 100 400, Frame]))
                 [Frame, WindowResize 300 300, Frame])
     = particles (cleanup (run (\<lambda>k. 0) (mount (\<lambda>k. 0) (page 200 200)) [Frame, WindowResize 100 400, Frame]))
   \<and> ctx (run (\<lambda>k. 0) (cleanup (run (\<lambda>k. 0) (mount (\<lambda>k. 0) (page 200 200)) [Frame, WindowResize 100 400, Frame]))
                 [Frame, WindowResize 300 300, Frame])
     = ctx (cleanup (run (\<lambda>k. 0) (mount (\<lambda>k. 0) (page 200 200)) [Frame, WindowResize 100 400, Frame]))"
    unfolding Let_def by blast
  ultimately show ?thesis
    using none none' by blast
qed

end
